theory Spec2Isabelle
  imports Main
begin

section \<open>The skill of hola.py: requests, responses and handlers\<close>

text \<open>
  The module \<^verbatim>\<open>hola.py\<close> builds one skill: four request handlers and one exception
  handler, registered on a skill builder, and the entry point \<^verbatim>\<open>handler\<close> obtained from
  it. Each handler class has a predicate \<^verbatim>\<open>can_handle\<close> and an action \<^verbatim>\<open>handle\<close>; the
  action writes into the response builder carried by the handler input and returns the
  response built there.

  Python strings are lists of code points; every code point of the module's texts is
  below 256, so a text is a \<^typ>\<open>string\<close> here, the accented letters written by their code
  point (\<open>CHR 0xE1\<close> is a-acute, \<open>CHR 0xE9\<close> e-acute, \<open>CHR 0xED\<close> i-acute).
\<close>

subsection \<open>Data\<close>

text \<open>The intent of an intent request: its name and its slots (key and value).\<close>

record intent =
  name :: string
  slots :: "(string \<times> string) list"

text \<open>
  An incoming request. The module tells a launch request and an intent request from the
  rest; \<open>OtherRequest t\<close> stands for a request of any further class of the platform,
  \<open>t\<close> being its type string.
\<close>

datatype request =
    LaunchRequest
  | IntentRequest intent
  | SessionEndedRequest
  | OtherRequest string

fun object_type :: "request \<Rightarrow> string" where
  "object_type LaunchRequest = ''LaunchRequest''"
| "object_type (IntentRequest i) = ''IntentRequest''"
| "object_type SessionEndedRequest = ''SessionEndedRequest''"
| "object_type (OtherRequest t) = t"

text \<open>\<^verbatim>\<open>SimpleCard(title, content)\<close>: a card with a title and a body.\<close>

record simple_card =
  title :: string
  content :: string

definition SimpleCard :: "string \<Rightarrow> string \<Rightarrow> simple_card" where
  "SimpleCard t c = \<lparr>title = t, content = c\<rparr>"

text \<open>
  The outgoing response: spoken text, optional card, optional reprompt and the flag
  telling whether the session ends. A field nobody has set is \<open>None\<close>, as in the
  response of a fresh builder.
\<close>

record response =
  output_speech :: "string option"
  card :: "simple_card option"
  reprompt :: "string option"
  should_end_session :: "bool option"

definition empty_response :: response where
  "empty_response =
     \<lparr>output_speech = None, card = None, reprompt = None, should_end_session = None\<rparr>"

text \<open>
  The handler input: the request and the response builder. The builder is a mutable
  object of the handler input, so an action takes the handler input and gives back the
  updated one.
\<close>

record handler_input =
  request_envelope :: request
  response_builder :: response

text \<open>
  A Python exception. \<open>Exception m\<close> is an exception with message \<open>m\<close>, as a handler
  may raise it. \<open>DispatchException\<close> is the exception that the SDK's dispatcher raises
  itself when no request handler accepts the request; its message is left out.
\<close>

datatype exn = Exception string | DispatchException

subsection \<open>The operations of the SDK that the handlers call\<close>

text \<open>
  Modelled from the spec: the functions \<^verbatim>\<open>is_request_type\<close> and \<^verbatim>\<open>is_intent_name\<close>
  of \<^verbatim>\<open>ask_sdk_core.utils\<close> are not part of the module. The spec has the launch
  handler match when the request type is the given one, and an intent handler match when
  the request is an intent request and its intent name equals the given identifier; the
  module's own comments say the same.
\<close>

definition is_request_type :: "string \<Rightarrow> handler_input \<Rightarrow> bool" where
  "is_request_type request_type hi \<longleftrightarrow> object_type (request_envelope hi) = request_type"

definition is_intent_name :: "string \<Rightarrow> handler_input \<Rightarrow> bool" where
  "is_intent_name nm hi =
     (case request_envelope hi of
        IntentRequest i \<Rightarrow> name i = nm
      | _ \<Rightarrow> False)"

text \<open>
  Modelled from the spec: the response builder of \<^verbatim>\<open>ask_sdk_core\<close> is not part of the
  module. \<^verbatim>\<open>speak\<close> sets the spoken text, \<^verbatim>\<open>set_card\<close> the card,
  \<^verbatim>\<open>set_should_end_session\<close> the flag. \<^verbatim>\<open>ask\<close> sets the reprompt and keeps the
  session open: the spec's help handler "sets the same speech as reprompt (keeps
  microphone open awaiting input)", and the module's comment on it reads "causes the
  user's microphone to open up for the user to respond". The markup the SDK wraps around
  a spoken text belongs to its wire format and is left out: a speech is the text given
  to \<^verbatim>\<open>speak\<close>.
\<close>

definition speak :: "string \<Rightarrow> response \<Rightarrow> response" where
  "speak speech r = r\<lparr>output_speech := Some speech\<rparr>"

definition ask :: "string \<Rightarrow> response \<Rightarrow> response" where
  "ask rp r = r\<lparr>reprompt := Some rp, should_end_session := Some False\<rparr>"

definition set_card :: "simple_card \<Rightarrow> response \<Rightarrow> response" where
  "set_card c r = r\<lparr>card := Some c\<rparr>"

definition set_should_end_session :: "bool \<Rightarrow> response \<Rightarrow> response" where
  "set_should_end_session b r = r\<lparr>should_end_session := Some b\<rparr>"

subsection \<open>Handlers\<close>

text \<open>
  \<^verbatim>\<open>AbstractRequestHandler\<close>: a predicate and an action. Either may raise; an action
  that raises leaves the builder as it was at that moment, so it returns the handler
  input in both cases.
\<close>

record request_handler =
  can_handle :: "handler_input \<Rightarrow> exn + bool"
  handle :: "handler_input \<Rightarrow> (exn + response) \<times> handler_input"

text \<open>
  \<^verbatim>\<open>AbstractExceptionHandler\<close>: predicate and action also take the exception. The
  action of the module's exception handler prints; the output is the list of what has
  been printed, passed through.
\<close>

record exception_handler =
  exc_can_handle :: "handler_input \<Rightarrow> exn \<Rightarrow> bool"
  exc_handle :: "handler_input \<Rightarrow> exn \<Rightarrow> exn list \<Rightarrow> (response \<times> handler_input) \<times> exn list"

text \<open>\<^verbatim>\<open>class LaunchRequestHandler\<close>\<close>

definition LaunchRequestHandler_can_handle :: "handler_input \<Rightarrow> bool" where
  "LaunchRequestHandler_can_handle hi = is_request_type ''LaunchRequest'' hi"

definition LaunchRequestHandler_handle :: "handler_input \<Rightarrow> response \<times> handler_input" where
  "LaunchRequestHandler_handle hi =
     (let speech_text =
            ''Hola, Bienvenido al Kit de Skills de la Alexa, ahora puedes decir Hola Mundo!'';
          hi' = hi\<lparr>response_builder :=
                  set_should_end_session False
                    (set_card (SimpleCard ''Hola Mundo'' speech_text)
                      (speak speech_text (response_builder hi)))\<rparr>
      in (response_builder hi', hi'))"

text \<open>\<^verbatim>\<open>class HolaMundoIntentHandler\<close>\<close>

definition HolaMundoIntentHandler_can_handle :: "handler_input \<Rightarrow> bool" where
  "HolaMundoIntentHandler_can_handle hi = is_intent_name ''HolaMundoIntent'' hi"

definition HolaMundoIntentHandler_handle :: "handler_input \<Rightarrow> response \<times> handler_input" where
  "HolaMundoIntentHandler_handle hi =
     (let speech_text =
            ''El mundo es un lugar maravilloso, l'' @ [CHR 0xE1] @
            ''stima que los humanos no lo cuidan como deber'' @ [CHR 0xED] @ ''a ser'';
          hi' = hi\<lparr>response_builder :=
                  set_should_end_session True
                    (set_card (SimpleCard ''Hola Mundo'' speech_text)
                      (speak speech_text (response_builder hi)))\<rparr>
      in (response_builder hi', hi'))"

text \<open>\<^verbatim>\<open>class HelpIntentHandler\<close>\<close>

definition HelpIntentHandler_can_handle :: "handler_input \<Rightarrow> bool" where
  "HelpIntentHandler_can_handle hi = is_intent_name ''AMAZON.HelpIntent'' hi"

definition HelpIntentHandler_handle :: "handler_input \<Rightarrow> response \<times> handler_input" where
  "HelpIntentHandler_handle hi =
     (let speech_text =
            ''Puedes decirme Hola Mundo y te responder'' @ [CHR 0xE9] @ '' que pienso!'';
          hi' = hi\<lparr>response_builder :=
                  set_card (SimpleCard ''Hola Mundo'' speech_text)
                    (ask speech_text (speak speech_text (response_builder hi)))\<rparr>
      in (response_builder hi', hi'))"

text \<open>\<^verbatim>\<open>class CancelAndStopIntentHandler\<close>\<close>

definition CancelAndStopIntentHandler_can_handle :: "handler_input \<Rightarrow> bool" where
  "CancelAndStopIntentHandler_can_handle hi \<longleftrightarrow>
     is_intent_name ''AMAZON.CancelIntent'' hi \<or> is_intent_name ''AMAZON.StopIntent'' hi"

definition CancelAndStopIntentHandler_handle :: "handler_input \<Rightarrow> response \<times> handler_input" where
  "CancelAndStopIntentHandler_handle hi =
     (let speech_text =
            ''Nos vemos luego, acuerdate de cuidar al mundo para que siga siendo un lugar maravilloso!'';
          hi' = hi\<lparr>response_builder :=
                  set_should_end_session True
                    (set_card (SimpleCard ''Hola Mundo'' speech_text)
                      (speak speech_text (response_builder hi)))\<rparr>
      in (response_builder hi', hi'))"

text \<open>\<^verbatim>\<open>class AllExceptionHandler\<close>\<close>

definition AllExceptionHandler_can_handle :: "handler_input \<Rightarrow> exn \<Rightarrow> bool" where
  "AllExceptionHandler_can_handle hi exception = True"

definition AllExceptionHandler_handle ::
  "handler_input \<Rightarrow> exn \<Rightarrow> exn list \<Rightarrow> (response \<times> handler_input) \<times> exn list" where
  "AllExceptionHandler_handle hi exception printed =
     (let printed' = printed @ [exception];
          speech = ''Ah caray, no lo he entendido. Puedes repetirmelo una vez m'' @
                   [CHR 0xE1] @ ''s!!'';
          hi' = hi\<lparr>response_builder := ask speech (speak speech (response_builder hi))\<rparr>
      in ((response_builder hi', hi'), printed'))"

text \<open>
  The instances the module registers. None of the four request handlers raises: their
  predicates and actions are the total functions above.
\<close>

definition request_handler_of ::
  "(handler_input \<Rightarrow> bool) \<Rightarrow> (handler_input \<Rightarrow> response \<times> handler_input) \<Rightarrow> request_handler" where
  "request_handler_of p a =
     \<lparr>can_handle = (\<lambda>hi. Inr (p hi)),
      handle = (\<lambda>hi. case a hi of (r, hi') \<Rightarrow> (Inr r, hi'))\<rparr>"

definition LaunchRequestHandler :: request_handler where
  "LaunchRequestHandler =
     request_handler_of LaunchRequestHandler_can_handle LaunchRequestHandler_handle"

definition HolaMundoIntentHandler :: request_handler where
  "HolaMundoIntentHandler =
     request_handler_of HolaMundoIntentHandler_can_handle HolaMundoIntentHandler_handle"

definition HelpIntentHandler :: request_handler where
  "HelpIntentHandler =
     request_handler_of HelpIntentHandler_can_handle HelpIntentHandler_handle"

definition CancelAndStopIntentHandler :: request_handler where
  "CancelAndStopIntentHandler =
     request_handler_of CancelAndStopIntentHandler_can_handle CancelAndStopIntentHandler_handle"

definition AllExceptionHandler :: exception_handler where
  "AllExceptionHandler =
     \<lparr>exc_can_handle = AllExceptionHandler_can_handle,
      exc_handle = AllExceptionHandler_handle\<rparr>"

subsection \<open>The skill builder and the dispatcher\<close>

text \<open>
  Modelled from the spec: the skill builder and the dispatcher behind
  \<^verbatim>\<open>sb.lambda_handler()\<close> are the SDK's and not part of the module. The spec's data model
  keeps the registered handlers "in an ordered sequence", so registering appends.
\<close>

record skill_builder =
  request_handlers :: "request_handler list"
  exception_handlers :: "exception_handler list"

definition SkillBuilder :: skill_builder where
  "SkillBuilder = \<lparr>request_handlers = [], exception_handlers = []\<rparr>"

definition add_request_handler :: "request_handler \<Rightarrow> skill_builder \<Rightarrow> skill_builder" where
  "add_request_handler h b = b\<lparr>request_handlers := request_handlers b @ [h]\<rparr>"

definition add_exception_handler :: "exception_handler \<Rightarrow> skill_builder \<Rightarrow> skill_builder" where
  "add_exception_handler h b = b\<lparr>exception_handlers := exception_handlers b @ [h]\<rparr>"

text \<open>The module's builder after its five registrations, in the order of the module.\<close>

definition sb :: skill_builder where
  "sb =
     add_exception_handler AllExceptionHandler
       (add_request_handler CancelAndStopIntentHandler
         (add_request_handler HelpIntentHandler
           (add_request_handler HolaMundoIntentHandler
             (add_request_handler LaunchRequestHandler SkillBuilder))))"

text \<open>
  Modelled from the spec (4.1): "find the first Handler whose predicate evaluates to
  true; invoke its action; return the resulting OutgoingResponse". The predicates are
  evaluated in the order of the list and the search stops at the first one that holds or
  raises; an error raised by the predicate or by the action is the result, with the handler
  input as it was when the error was raised. When no predicate holds, the dispatcher raises
  an error of its own, the "raised configuration error" of the spec's section 7.
\<close>

fun dispatch_request ::
  "request_handler list \<Rightarrow> handler_input \<Rightarrow> (exn + response) \<times> handler_input" where
  "dispatch_request [] hi = (Inl DispatchException, hi)"
| "dispatch_request (h # hs) hi =
     (case can_handle h hi of
        Inl e \<Rightarrow> (Inl e, hi)
      | Inr b \<Rightarrow> if b then handle h hi else dispatch_request hs hi)"

text \<open>The first exception handler whose predicate holds of the error.\<close>

fun get_exception_handler ::
  "exception_handler list \<Rightarrow> handler_input \<Rightarrow> exn \<Rightarrow> exception_handler option" where
  "get_exception_handler [] hi e = None"
| "get_exception_handler (h # hs) hi e =
     (if exc_can_handle h hi e then Some h else get_exception_handler hs hi e)"

text \<open>
  Modelled from the spec (2 and 4.1): "any error raised during matching or handling is
  caught by the fallback handler, which logs it and returns a generic reprompt"; "invoke
  the ExceptionHandler matching the error ... and return its response instead". This holds
  of the dispatcher's own error for a request that nothing matched as of an error raised
  by a handler. The spec does not say what happens when no exception handler matches; the
  error then leaves the entry point (\<open>Inl\<close>).
\<close>

definition dispatch ::
  "request_handler list \<Rightarrow> exception_handler list \<Rightarrow> handler_input \<Rightarrow> exn list \<Rightarrow>
   (exn + response) \<times> exn list" where
  "dispatch hs ehs hi printed =
     (case dispatch_request hs hi of
        (Inr r, hi') \<Rightarrow> (Inr r, printed)
      | (Inl e, hi') \<Rightarrow>
          (case get_exception_handler ehs hi' e of
             None \<Rightarrow> (Inl e, printed)
           | Some eh \<Rightarrow>
               (case exc_handle eh hi' e printed of
                  ((r, hi''), printed') \<Rightarrow> (Inr r, printed'))))"

text \<open>
  Modelled from the spec (3, lifecycle): every invocation gets a handler input of its
  own, with the request and a fresh response builder.
\<close>

definition new_handler_input :: "request \<Rightarrow> handler_input" where
  "new_handler_input req = \<lparr>request_envelope = req, response_builder = empty_response\<rparr>"

definition lambda_handler ::
  "skill_builder \<Rightarrow> request \<Rightarrow> exn list \<Rightarrow> (exn + response) \<times> exn list" where
  "lambda_handler b req printed =
     dispatch (request_handlers b) (exception_handlers b) (new_handler_input req) printed"

text \<open>\<^verbatim>\<open>handler = sb.lambda_handler()\<close>\<close>

definition handler :: "request \<Rightarrow> exn list \<Rightarrow> (exn + response) \<times> exn list" where
  "handler = lambda_handler sb"

section \<open>Properties\<close>

subsection \<open>The registrations\<close>

lemma sb_request_handlers:
  "request_handlers sb =
     [LaunchRequestHandler, HolaMundoIntentHandler, HelpIntentHandler,
      CancelAndStopIntentHandler]"
  by (simp add: sb_def SkillBuilder_def add_request_handler_def add_exception_handler_def)

lemma sb_exception_handlers: "exception_handlers sb = [AllExceptionHandler]"
  by (simp add: sb_def SkillBuilder_def add_request_handler_def add_exception_handler_def)

subsection \<open>What the registered handlers compute\<close>

lemmas builder_defs = speak_def ask_def set_card_def set_should_end_session_def SimpleCard_def

lemma can_handle_Launch:
  "can_handle LaunchRequestHandler hi = Inr (object_type (request_envelope hi) = ''LaunchRequest'')"
  by (simp add: LaunchRequestHandler_def request_handler_of_def
      LaunchRequestHandler_can_handle_def is_request_type_def)

lemma can_handle_HolaMundo:
  "can_handle HolaMundoIntentHandler hi = Inr (is_intent_name ''HolaMundoIntent'' hi)"
  by (simp add: HolaMundoIntentHandler_def request_handler_of_def
      HolaMundoIntentHandler_can_handle_def)

lemma can_handle_Help:
  "can_handle HelpIntentHandler hi = Inr (is_intent_name ''AMAZON.HelpIntent'' hi)"
  by (simp add: HelpIntentHandler_def request_handler_of_def HelpIntentHandler_can_handle_def)

lemma can_handle_CancelAndStop:
  "can_handle CancelAndStopIntentHandler hi =
     Inr (is_intent_name ''AMAZON.CancelIntent'' hi \<or> is_intent_name ''AMAZON.StopIntent'' hi)"
  by (simp add: CancelAndStopIntentHandler_def request_handler_of_def
      CancelAndStopIntentHandler_can_handle_def)

lemmas can_handle_simps =
  can_handle_Launch can_handle_HolaMundo can_handle_Help can_handle_CancelAndStop

lemma request_envelope_new:
  "request_envelope (new_handler_input req) = req"
  by (simp add: new_handler_input_def)

lemma is_intent_name_IntentRequest:
  "is_intent_name nm (new_handler_input (IntentRequest i)) \<longleftrightarrow> name i = nm"
  by (simp add: is_intent_name_def new_handler_input_def)

lemma handle_request_handler_of:
  "handle (request_handler_of p a) hi = (Inr (fst (a hi)), snd (a hi))"
  by (simp add: request_handler_of_def split_beta)

lemma handle_registered:
  "handle LaunchRequestHandler hi =
     (Inr (fst (LaunchRequestHandler_handle hi)), snd (LaunchRequestHandler_handle hi))"
  "handle HolaMundoIntentHandler hi =
     (Inr (fst (HolaMundoIntentHandler_handle hi)), snd (HolaMundoIntentHandler_handle hi))"
  "handle HelpIntentHandler hi =
     (Inr (fst (HelpIntentHandler_handle hi)), snd (HelpIntentHandler_handle hi))"
  "handle CancelAndStopIntentHandler hi =
     (Inr (fst (CancelAndStopIntentHandler_handle hi)),
      snd (CancelAndStopIntentHandler_handle hi))"
  by (simp_all add: LaunchRequestHandler_def HolaMundoIntentHandler_def HelpIntentHandler_def
      CancelAndStopIntentHandler_def handle_request_handler_of)

lemma handle_Launch:
  "fst (LaunchRequestHandler_handle (new_handler_input req)) =
    \<lparr>output_speech = Some ''Hola, Bienvenido al Kit de Skills de la Alexa, ahora puedes decir Hola Mundo!'',
      card = Some \<lparr>title = ''Hola Mundo'', content = ''Hola, Bienvenido al Kit de Skills de la Alexa, ahora puedes decir Hola Mundo!''\<rparr>,
      reprompt = None, should_end_session = Some False\<rparr>"
  by (simp add: LaunchRequestHandler_handle_def
      new_handler_input_def empty_response_def builder_defs Let_def)

lemma handle_HolaMundo:
  "fst (HolaMundoIntentHandler_handle (new_handler_input req)) =
    \<lparr>output_speech = Some (''El mundo es un lugar maravilloso, l'' @ [CHR 0xE1] @
            ''stima que los humanos no lo cuidan como deber'' @ [CHR 0xED] @ ''a ser''),
      card = Some \<lparr>title = ''Hola Mundo'', content = ''El mundo es un lugar maravilloso, l'' @ [CHR 0xE1] @
            ''stima que los humanos no lo cuidan como deber'' @ [CHR 0xED] @ ''a ser''\<rparr>,
      reprompt = None, should_end_session = Some True\<rparr>"
  by (simp add: HolaMundoIntentHandler_handle_def
      new_handler_input_def empty_response_def builder_defs Let_def)

lemma handle_Help:
  "fst (HelpIntentHandler_handle (new_handler_input req)) =
    \<lparr>output_speech = Some (''Puedes decirme Hola Mundo y te responder'' @ [CHR 0xE9] @ '' que pienso!''),
      card = Some \<lparr>title = ''Hola Mundo'', content = ''Puedes decirme Hola Mundo y te responder'' @ [CHR 0xE9] @ '' que pienso!''\<rparr>,
      reprompt = Some (''Puedes decirme Hola Mundo y te responder'' @ [CHR 0xE9] @ '' que pienso!''),
      should_end_session = Some False\<rparr>"
  by (simp add: HelpIntentHandler_handle_def
      new_handler_input_def empty_response_def builder_defs Let_def)

lemma handle_CancelAndStop:
  "fst (CancelAndStopIntentHandler_handle (new_handler_input req)) =
    \<lparr>output_speech = Some ''Nos vemos luego, acuerdate de cuidar al mundo para que siga siendo un lugar maravilloso!'',
      card = Some \<lparr>title = ''Hola Mundo'', content = ''Nos vemos luego, acuerdate de cuidar al mundo para que siga siendo un lugar maravilloso!''\<rparr>,
      reprompt = None, should_end_session = Some True\<rparr>"
  by (simp add: CancelAndStopIntentHandler_handle_def
      new_handler_input_def empty_response_def builder_defs Let_def)

lemma registered_cases:
  "h \<in> set (request_handlers sb) \<Longrightarrow>
   h = LaunchRequestHandler \<or> h = HolaMundoIntentHandler \<or> h = HelpIntentHandler \<or>
   h = CancelAndStopIntentHandler"
  by (simp add: sb_request_handlers)

lemma registered_handle_total:
  assumes "h \<in> set (request_handlers sb)"
  shows "\<exists>r. fst (handle h hi) = Inr r"
  using registered_cases [OF assms]
  by (auto simp: handle_registered)

lemma dispatch_request_skip:
  "\<forall>p\<in>set pre. can_handle p hi = Inr False \<Longrightarrow>
   dispatch_request (pre @ hs) hi = dispatch_request hs hi"
  by (induction pre) simp_all

lemma dispatch_request_match:
  "can_handle h hi = Inr True \<Longrightarrow> dispatch_request (h # hs) hi = handle h hi"
  by simp

lemma dispatch_response:
  "fst (dispatch_request hs hi) = Inr r \<Longrightarrow> dispatch hs ehs hi printed = (Inr r, printed)"
  by (cases "dispatch_request hs hi") (simp add: dispatch_def)

lemma dispatch_request_sb:
  "fst (dispatch_request (request_handlers sb) hi) =
    (if object_type (request_envelope hi) = ''LaunchRequest''
       then Inr (fst (LaunchRequestHandler_handle hi))
     else if is_intent_name ''HolaMundoIntent'' hi
       then Inr (fst (HolaMundoIntentHandler_handle hi))
     else if is_intent_name ''AMAZON.HelpIntent'' hi
       then Inr (fst (HelpIntentHandler_handle hi))
     else if is_intent_name ''AMAZON.CancelIntent'' hi \<or> is_intent_name ''AMAZON.StopIntent'' hi
       then Inr (fst (CancelAndStopIntentHandler_handle hi))
     else Inl DispatchException)"
  by (simp add: sb_request_handlers can_handle_simps handle_registered)

lemma dispatch_request_sb_unmatched:
  assumes "object_type (request_envelope hi) \<noteq> ''LaunchRequest''"
    and "\<not> is_intent_name ''HolaMundoIntent'' hi"
    and "\<not> is_intent_name ''AMAZON.HelpIntent'' hi"
    and "\<not> is_intent_name ''AMAZON.CancelIntent'' hi"
    and "\<not> is_intent_name ''AMAZON.StopIntent'' hi"
  shows "dispatch_request (request_handlers sb) hi = (Inl DispatchException, hi)"
  using assms by (simp add: sb_request_handlers can_handle_simps)

subsection \<open>First match in registration order\<close>

text \<open>
  C1. The request handlers are registered in the order launch, primary intent, help,
  cancel/stop. For every request: when a registered handler's predicate holds and the
  predicates of all handlers registered before it do not, the action of that handler
  returns a response and the entry point returns exactly this response, printing nothing.
\<close>

theorem dispatch_first_match:
  assumes "request_handlers sb = pre @ h # post"
    and "\<forall>p\<in>set pre. can_handle p (new_handler_input req) = Inr False"
    and "can_handle h (new_handler_input req) = Inr True"
  shows "request_handlers sb =
           [LaunchRequestHandler, HolaMundoIntentHandler, HelpIntentHandler,
            CancelAndStopIntentHandler] \<and>
         (\<exists>r. fst (handle h (new_handler_input req)) = Inr r \<and>
              handler req printed = (Inr r, printed))"
proof -
  have "h \<in> set (request_handlers sb)"
    using assms(1) by simp
  then obtain r where r: "fst (handle h (new_handler_input req)) = Inr r"
    using registered_handle_total by blast
  have "fst (dispatch_request (request_handlers sb) (new_handler_input req)) =
          fst (dispatch_request (h # post) (new_handler_input req))"
    using assms(1,2) by (simp add: dispatch_request_skip)
  also have "\<dots> = Inr r"
    using dispatch_request_match [OF assms(3)] r by simp
  finally have "handler req printed = (Inr r, printed)"
    by (simp add: handler_def lambda_handler_def dispatch_response)
  with r show ?thesis
    by (simp add: sb_request_handlers)
qed

theorem dispatch_first_match_witness:
  "request_handlers sb =
     [LaunchRequestHandler, HolaMundoIntentHandler] @
       HelpIntentHandler # [CancelAndStopIntentHandler] \<and>
   can_handle LaunchRequestHandler
     (new_handler_input (IntentRequest \<lparr>name = ''AMAZON.HelpIntent'', slots = []\<rparr>)) =
     Inr False \<and>
   can_handle HolaMundoIntentHandler
     (new_handler_input (IntentRequest \<lparr>name = ''AMAZON.HelpIntent'', slots = []\<rparr>)) =
     Inr False \<and>
   can_handle HelpIntentHandler
     (new_handler_input (IntentRequest \<lparr>name = ''AMAZON.HelpIntent'', slots = []\<rparr>)) =
     Inr True \<and>
   (\<exists>r. fst (handle HelpIntentHandler
                (new_handler_input
                  (IntentRequest \<lparr>name = ''AMAZON.HelpIntent'', slots = []\<rparr>))) = Inr r \<and>
        handler (IntentRequest \<lparr>name = ''AMAZON.HelpIntent'', slots = []\<rparr>) [] =
          (Inr r, []))"
proof -
  let ?req = "IntentRequest \<lparr>name = ''AMAZON.HelpIntent'', slots = []\<rparr>"
  have a: "request_handlers sb =
      [LaunchRequestHandler, HolaMundoIntentHandler] @
        HelpIntentHandler # [CancelAndStopIntentHandler]"
    by (simp add: sb_request_handlers)
  have b: "\<forall>p\<in>set [LaunchRequestHandler, HolaMundoIntentHandler].
      can_handle p (new_handler_input ?req) = Inr False"
    by (simp add: can_handle_simps request_envelope_new is_intent_name_IntentRequest)
  have c: "can_handle HelpIntentHandler (new_handler_input ?req) = Inr True"
    by (simp add: can_handle_simps is_intent_name_IntentRequest)
  have b': "can_handle LaunchRequestHandler (new_handler_input ?req) = Inr False"
    "can_handle HolaMundoIntentHandler (new_handler_input ?req) = Inr False"
    using b by simp_all
  from dispatch_first_match [OF a b c, of "[]"] a b' c show ?thesis
    by blast
qed

subsection \<open>The exception handler as fallback\<close>

lemma dispatch_request_raise_pred:
  "can_handle h hi = Inl e \<Longrightarrow> dispatch_request (h # hs) hi = (Inl e, hi)"
  by simp

lemma dispatch_request_raise_action:
  "can_handle h hi = Inr True \<Longrightarrow> fst (handle h hi) = Inl e \<Longrightarrow>
   dispatch_request (h # hs) hi = (Inl e, snd (handle h hi))"
  by (cases "handle h hi") simp

lemma AllExceptionHandler_response:
  "exc_handle AllExceptionHandler hi e printed =
     ((response_builder hi
         \<lparr>output_speech :=
            Some (''Ah caray, no lo he entendido. Puedes repetirmelo una vez m'' @
                  [CHR 0xE1] @ ''s!!''),
          reprompt :=
            Some (''Ah caray, no lo he entendido. Puedes repetirmelo una vez m'' @
                  [CHR 0xE1] @ ''s!!''),
          should_end_session := Some False\<rparr>,
       hi\<lparr>response_builder := response_builder hi
         \<lparr>output_speech :=
            Some (''Ah caray, no lo he entendido. Puedes repetirmelo una vez m'' @
                  [CHR 0xE1] @ ''s!!''),
          reprompt :=
            Some (''Ah caray, no lo he entendido. Puedes repetirmelo una vez m'' @
                  [CHR 0xE1] @ ''s!!''),
          should_end_session := Some False\<rparr>\<rparr>),
      printed @ [e])"
  by (simp add: AllExceptionHandler_def AllExceptionHandler_handle_def Let_def builder_defs)

lemma dispatch_raise_sb:
  assumes "dispatch_request hs hi = (Inl e, hi')"
  shows "dispatch hs (exception_handlers sb) hi printed =
           (Inr (fst (fst (exc_handle AllExceptionHandler hi' e printed))),
            snd (exc_handle AllExceptionHandler hi' e printed))"
  using assms
  by (simp add: dispatch_def sb_exception_handlers AllExceptionHandler_def
      AllExceptionHandler_can_handle_def split_beta)

text \<open>
  C2. Take any list of request handlers in place of the registered ones, the exception
  handler staying as registered. For every request: when the first handler whose
  predicate does not return false either raises in its predicate, or matches and raises
  in its action, the entry point returns a response whose speech is the fixed apology,
  whose reprompt is that same speech and whose session stays open, and the error has been
  printed once: the output is the former output followed by this one error.
\<close>

theorem exception_fallback:
  assumes "hs = pre @ h # post"
    and "\<forall>p\<in>set pre. can_handle p (new_handler_input req) = Inr False"
    and "can_handle h (new_handler_input req) = Inl e \<or>
         can_handle h (new_handler_input req) = Inr True \<and>
         fst (handle h (new_handler_input req)) = Inl e"
  shows "\<exists>r. lambda_handler (sb\<lparr>request_handlers := hs\<rparr>) req printed = (Inr r, printed @ [e]) \<and>
             output_speech r =
               Some (''Ah caray, no lo he entendido. Puedes repetirmelo una vez m'' @
                     [CHR 0xE1] @ ''s!!'') \<and>
             reprompt r = output_speech r \<and>
             should_end_session r = Some False"
proof -
  let ?hi = "new_handler_input req"
  have skip: "dispatch_request hs ?hi = dispatch_request (h # post) ?hi"
    using assms(1,2) by (simp add: dispatch_request_skip)
  from assms(3) obtain hi' where "dispatch_request (h # post) ?hi = (Inl e, hi')"
    using dispatch_request_raise_pred dispatch_request_raise_action by blast
  with skip have "dispatch_request hs ?hi = (Inl e, hi')"
    by simp
  from dispatch_raise_sb [OF this, of printed] show ?thesis
    by (simp add: lambda_handler_def AllExceptionHandler_response)
qed

theorem exception_fallback_witness:
  "[LaunchRequestHandler,
    \<lparr>can_handle = (\<lambda>hi. Inr True),
     handle = (\<lambda>hi. (Inl (Exception ''boom''),
                hi\<lparr>response_builder := set_should_end_session True (response_builder hi)\<rparr>))\<rparr>] =
     [LaunchRequestHandler] @
     \<lparr>can_handle = (\<lambda>hi. Inr True),
      handle = (\<lambda>hi. (Inl (Exception ''boom''),
                hi\<lparr>response_builder := set_should_end_session True (response_builder hi)\<rparr>))\<rparr> # [] \<and>
   can_handle LaunchRequestHandler (new_handler_input SessionEndedRequest) = Inr False \<and>
   (\<exists>r. lambda_handler
          (sb\<lparr>request_handlers :=
             [LaunchRequestHandler,
              \<lparr>can_handle = (\<lambda>hi. Inr True),
               handle = (\<lambda>hi. (Inl (Exception ''boom''),
                 hi\<lparr>response_builder :=
                      set_should_end_session True (response_builder hi)\<rparr>))\<rparr>]\<rparr>)
          SessionEndedRequest [] = (Inr r, [] @ [Exception ''boom'']) \<and>
        output_speech r =
          Some (''Ah caray, no lo he entendido. Puedes repetirmelo una vez m'' @
                [CHR 0xE1] @ ''s!!'') \<and>
        reprompt r = output_speech r \<and>
        should_end_session r = Some False)"
proof -
  let ?bad = "\<lparr>can_handle = (\<lambda>hi. Inr True),
     handle = (\<lambda>hi. (Inl (Exception ''boom''),
                hi\<lparr>response_builder := set_should_end_session True (response_builder hi)\<rparr>))\<rparr>"
  have a: "[LaunchRequestHandler, ?bad] = [LaunchRequestHandler] @ ?bad # []"
    by (rule append_Cons [of LaunchRequestHandler "[]" "[?bad]", unfolded append_Nil, symmetric])
  have b: "\<forall>p\<in>set [LaunchRequestHandler].
      can_handle p (new_handler_input SessionEndedRequest) = Inr False"
    by (simp add: can_handle_simps request_envelope_new)
  have "can_handle ?bad (new_handler_input SessionEndedRequest) = Inr True"
    by (simp only: request_handler.simps)
  moreover have "fst (handle ?bad (new_handler_input SessionEndedRequest)) =
      Inl (Exception ''boom'')"
    by (simp only: request_handler.simps fst_conv)
  ultimately have
    c: "can_handle ?bad (new_handler_input SessionEndedRequest) = Inl (Exception ''boom'') \<or>
      can_handle ?bad (new_handler_input SessionEndedRequest) = Inr True \<and>
      fst (handle ?bad (new_handler_input SessionEndedRequest)) = Inl (Exception ''boom'')"
    by (intro disjI2 conjI)
  have b': "can_handle LaunchRequestHandler (new_handler_input SessionEndedRequest) = Inr False"
    by (simp add: can_handle_simps request_envelope_new)
  show ?thesis
    by (rule conjI [OF a conjI [OF b' exception_fallback [OF a b c, of "[]"]]])
qed

subsection \<open>The entry point on the registered handlers\<close>

lemma handler_eq:
  "handler req printed =
     dispatch (request_handlers sb) (exception_handlers sb) (new_handler_input req) printed"
  by (simp add: handler_def lambda_handler_def)

lemma handler_IntentRequest:
  "fst (dispatch_request (request_handlers sb) (new_handler_input (IntentRequest i))) =
    (if name i = ''HolaMundoIntent''
       then Inr (fst (HolaMundoIntentHandler_handle (new_handler_input (IntentRequest i))))
     else if name i = ''AMAZON.HelpIntent''
       then Inr (fst (HelpIntentHandler_handle (new_handler_input (IntentRequest i))))
     else if name i = ''AMAZON.CancelIntent'' \<or> name i = ''AMAZON.StopIntent''
       then Inr (fst (CancelAndStopIntentHandler_handle (new_handler_input (IntentRequest i))))
     else Inl DispatchException)"
  by (simp add: dispatch_request_sb request_envelope_new is_intent_name_IntentRequest)

lemma handler_unmatched:
  assumes "object_type req \<noteq> ''LaunchRequest''"
    and "\<not> is_intent_name ''HolaMundoIntent'' (new_handler_input req)"
    and "\<not> is_intent_name ''AMAZON.HelpIntent'' (new_handler_input req)"
    and "\<not> is_intent_name ''AMAZON.CancelIntent'' (new_handler_input req)"
    and "\<not> is_intent_name ''AMAZON.StopIntent'' (new_handler_input req)"
  shows "handler req printed =
     (Inr \<lparr>output_speech =
             Some (''Ah caray, no lo he entendido. Puedes repetirmelo una vez m'' @
                    [CHR 0xE1] @ ''s!!''),
           card = None,
           reprompt =
             Some (''Ah caray, no lo he entendido. Puedes repetirmelo una vez m'' @
                    [CHR 0xE1] @ ''s!!''),
           should_end_session = Some False\<rparr>,
      printed @ [DispatchException])"
proof -
  have "dispatch_request (request_handlers sb) (new_handler_input req) =
      (Inl DispatchException, new_handler_input req)"
    using assms by (intro dispatch_request_sb_unmatched) (simp_all add: request_envelope_new)
  from dispatch_raise_sb [OF this, of printed] show ?thesis
    unfolding handler_eq
    by (simp add: AllExceptionHandler_response new_handler_input_def empty_response_def)
qed

text \<open>
  C3, as the program has it. For every intent request whose intent name is none of the
  four names the registered predicates test (HolaMundoIntent, AMAZON.HelpIntent,
  AMAZON.CancelIntent, AMAZON.StopIntent), the entry point neither fails nor returns an
  empty response: the dispatcher's error for a request that nothing matched goes to the
  registered catch-all exception handler, which prints it once, and the entry point returns
  the fixed apology as speech and as reprompt, with no card and the session left open.
\<close>

theorem unmatched_intent_fallback:
  assumes "name i \<noteq> ''HolaMundoIntent''" and "name i \<noteq> ''AMAZON.HelpIntent''"
    and "name i \<noteq> ''AMAZON.CancelIntent''" and "name i \<noteq> ''AMAZON.StopIntent''"
  shows "handler (IntentRequest i) printed =
     (Inr \<lparr>output_speech =
             Some (''Ah caray, no lo he entendido. Puedes repetirmelo una vez m'' @
                    [CHR 0xE1] @ ''s!!''),
           card = None,
           reprompt =
             Some (''Ah caray, no lo he entendido. Puedes repetirmelo una vez m'' @
                    [CHR 0xE1] @ ''s!!''),
           should_end_session = Some False\<rparr>,
      printed @ [DispatchException])"
  using assms by (intro handler_unmatched) (simp_all add: is_intent_name_IntentRequest)

theorem unmatched_intent_fallback_witness:
  "handler (IntentRequest \<lparr>name = ''AMAZON.YesIntent'', slots = []\<rparr>) [Exception ''before''] =
     (Inr \<lparr>output_speech =
             Some (''Ah caray, no lo he entendido. Puedes repetirmelo una vez m'' @
                    [CHR 0xE1] @ ''s!!''),
           card = None,
           reprompt =
             Some (''Ah caray, no lo he entendido. Puedes repetirmelo una vez m'' @
                    [CHR 0xE1] @ ''s!!''),
           should_end_session = Some False\<rparr>,
      [Exception ''before''] @ [DispatchException])"
  by (rule unmatched_intent_fallback) simp_all

text \<open>
  C3, as stated, has the entry point report an explicit \<open>UnhandledRequest\<close> signal for
  such a request. On the intent request named AMAZON.FallbackIntent, which no registered
  predicate accepts, the result of the entry point is not a signal but an ordinary
  response, the same apology that an error raised in a handler gets.
\<close>

theorem unmatched_intent_returns_apology:
  "handler (IntentRequest \<lparr>name = ''AMAZON.FallbackIntent'', slots = []\<rparr>) [] =
     (Inr \<lparr>output_speech =
             Some (''Ah caray, no lo he entendido. Puedes repetirmelo una vez m'' @
                    [CHR 0xE1] @ ''s!!''),
           card = None,
           reprompt =
             Some (''Ah caray, no lo he entendido. Puedes repetirmelo una vez m'' @
                    [CHR 0xE1] @ ''s!!''),
           should_end_session = Some False\<rparr>,
      [DispatchException])"
proof -
  have "handler (IntentRequest \<lparr>name = ''AMAZON.FallbackIntent'', slots = []\<rparr>) [] =
     (Inr \<lparr>output_speech =
             Some (''Ah caray, no lo he entendido. Puedes repetirmelo una vez m'' @
                    [CHR 0xE1] @ ''s!!''),
           card = None,
           reprompt =
             Some (''Ah caray, no lo he entendido. Puedes repetirmelo una vez m'' @
                    [CHR 0xE1] @ ''s!!''),
           should_end_session = Some False\<rparr>,
      [] @ [DispatchException])"
    by (rule handler_unmatched) (simp_all add: is_intent_name_IntentRequest)
  then show ?thesis
    by simp
qed

text \<open>
  C4. For every request whose type is LaunchRequest the entry point returns the fixed
  greeting as speech, a card titled "Hola Mundo" whose body is the greeting, no reprompt,
  and should-end-session false.
\<close>

theorem launch_greeting:
  assumes "object_type req = ''LaunchRequest''"
  shows "handler req printed =
     (Inr \<lparr>output_speech =
             Some ''Hola, Bienvenido al Kit de Skills de la Alexa, ahora puedes decir Hola Mundo!'',
           card = Some \<lparr>title = ''Hola Mundo'',
             content = ''Hola, Bienvenido al Kit de Skills de la Alexa, ahora puedes decir Hola Mundo!''\<rparr>,
           reprompt = None, should_end_session = Some False\<rparr>, printed)"
  unfolding handler_eq
  by (rule dispatch_response)
    (simp add: dispatch_request_sb request_envelope_new assms handle_Launch)

theorem launch_greeting_witness:
  "object_type LaunchRequest = ''LaunchRequest'' \<and>
   handler LaunchRequest [] =
     (Inr \<lparr>output_speech =
             Some ''Hola, Bienvenido al Kit de Skills de la Alexa, ahora puedes decir Hola Mundo!'',
           card = Some \<lparr>title = ''Hola Mundo'',
             content = ''Hola, Bienvenido al Kit de Skills de la Alexa, ahora puedes decir Hola Mundo!''\<rparr>,
           reprompt = None, should_end_session = Some False\<rparr>, [])"
  by (rule conjI [OF object_type.simps(1) launch_greeting [OF object_type.simps(1)]])

text \<open>
  C5. For every intent request whose intent name is HolaMundoIntent the entry point
  returns a response with should-end-session true whose speech is the fixed text of the
  primary intent.
\<close>

theorem primary_intent_response:
  assumes "name i = ''HolaMundoIntent''"
  shows "\<exists>r. handler (IntentRequest i) printed = (Inr r, printed) \<and>
             should_end_session r = Some True \<and>
             output_speech r =
               Some (''El mundo es un lugar maravilloso, l'' @ [CHR 0xE1] @
                     ''stima que los humanos no lo cuidan como deber'' @ [CHR 0xED] @ ''a ser'')"
proof -
  have "fst (dispatch_request (request_handlers sb) (new_handler_input (IntentRequest i))) =
          Inr (fst (HolaMundoIntentHandler_handle (new_handler_input (IntentRequest i))))"
    by (simp add: handler_IntentRequest assms)
  then have "handler (IntentRequest i) printed =
      (Inr (fst (HolaMundoIntentHandler_handle (new_handler_input (IntentRequest i)))), printed)"
    unfolding handler_eq by (rule dispatch_response)
  then show ?thesis
    by (simp add: handle_HolaMundo)
qed

theorem primary_intent_response_witness:
  "\<exists>r. handler (IntentRequest \<lparr>name = ''HolaMundoIntent'', slots = []\<rparr>) [] = (Inr r, []) \<and>
       should_end_session r = Some True \<and>
       output_speech r =
         Some (''El mundo es un lugar maravilloso, l'' @ [CHR 0xE1] @
               ''stima que los humanos no lo cuidan como deber'' @ [CHR 0xED] @ ''a ser'')"
  by (rule primary_intent_response) simp

text \<open>
  C6. For every intent request whose intent name is AMAZON.HelpIntent the entry point
  returns a response whose reprompt equals its speech, both being the fixed help text.
\<close>

theorem help_reprompt_is_speech:
  assumes "name i = ''AMAZON.HelpIntent''"
  shows "\<exists>r. handler (IntentRequest i) printed = (Inr r, printed) \<and>
             reprompt r = output_speech r \<and>
             output_speech r =
               Some (''Puedes decirme Hola Mundo y te responder'' @ [CHR 0xE9] @
                     '' que pienso!'')"
proof -
  have "fst (dispatch_request (request_handlers sb) (new_handler_input (IntentRequest i))) =
          Inr (fst (HelpIntentHandler_handle (new_handler_input (IntentRequest i))))"
    by (simp add: handler_IntentRequest assms)
  then have "handler (IntentRequest i) printed =
      (Inr (fst (HelpIntentHandler_handle (new_handler_input (IntentRequest i)))), printed)"
    unfolding handler_eq by (rule dispatch_response)
  then show ?thesis
    by (simp add: handle_Help)
qed

theorem help_reprompt_is_speech_witness:
  "\<exists>r. handler (IntentRequest \<lparr>name = ''AMAZON.HelpIntent'', slots = []\<rparr>) [] = (Inr r, []) \<and>
       reprompt r = output_speech r \<and>
       output_speech r =
         Some (''Puedes decirme Hola Mundo y te responder'' @ [CHR 0xE9] @ '' que pienso!'')"
  by (rule help_reprompt_is_speech) simp

lemma handler_cancel_or_stop:
  assumes "name i = ''AMAZON.CancelIntent'' \<or> name i = ''AMAZON.StopIntent''"
  shows "handler (IntentRequest i) printed =
     (Inr \<lparr>output_speech =
             Some ''Nos vemos luego, acuerdate de cuidar al mundo para que siga siendo un lugar maravilloso!'',
           card = Some \<lparr>title = ''Hola Mundo'',
             content = ''Nos vemos luego, acuerdate de cuidar al mundo para que siga siendo un lugar maravilloso!''\<rparr>,
           reprompt = None, should_end_session = Some True\<rparr>, printed)"
  unfolding handler_eq
  by (rule dispatch_response) (use assms in \<open>auto simp: handler_IntentRequest handle_CancelAndStop\<close>)

text \<open>
  C7. For every intent request named AMAZON.CancelIntent and every intent request named
  AMAZON.StopIntent the entry point gives the same result: the fixed farewell as speech, a
  card titled "Hola Mundo" with the farewell as body, and should-end-session true.
\<close>

theorem cancel_stop_identical:
  assumes "name c = ''AMAZON.CancelIntent''" and "name s = ''AMAZON.StopIntent''"
  shows "handler (IntentRequest c) printed = handler (IntentRequest s) printed \<and>
         handler (IntentRequest c) printed =
           (Inr \<lparr>output_speech =
                   Some ''Nos vemos luego, acuerdate de cuidar al mundo para que siga siendo un lugar maravilloso!'',
                 card = Some \<lparr>title = ''Hola Mundo'',
                   content = ''Nos vemos luego, acuerdate de cuidar al mundo para que siga siendo un lugar maravilloso!''\<rparr>,
                 reprompt = None, should_end_session = Some True\<rparr>, printed)"
  using assms by (simp add: handler_cancel_or_stop)

theorem cancel_stop_identical_witness:
  "handler (IntentRequest \<lparr>name = ''AMAZON.CancelIntent'', slots = []\<rparr>) [] =
     handler (IntentRequest \<lparr>name = ''AMAZON.StopIntent'', slots = [(''k'', ''v'')]\<rparr>) [] \<and>
   handler (IntentRequest \<lparr>name = ''AMAZON.CancelIntent'', slots = []\<rparr>) [] =
     (Inr \<lparr>output_speech =
             Some ''Nos vemos luego, acuerdate de cuidar al mundo para que siga siendo un lugar maravilloso!'',
           card = Some \<lparr>title = ''Hola Mundo'',
             content = ''Nos vemos luego, acuerdate de cuidar al mundo para que siga siendo un lugar maravilloso!''\<rparr>,
           reprompt = None, should_end_session = Some True\<rparr>, [])"
  by (rule cancel_stop_identical) simp_all

subsection \<open>The registered predicates\<close>

text \<open>
  C8. Exactly one exception handler is registered, \<open>AllExceptionHandler\<close>, and its
  predicate is true of every handler input and every error.
\<close>

theorem one_universal_exception_handler:
  "exception_handlers sb = [AllExceptionHandler] \<and> length (exception_handlers sb) = 1 \<and>
   exc_can_handle AllExceptionHandler hi e = True"
  by (simp add: sb_exception_handlers AllExceptionHandler_def AllExceptionHandler_can_handle_def)

lemma is_intent_name_IntentRequest_env:
  "request_envelope hi = IntentRequest i \<Longrightarrow> is_intent_name nm hi \<longleftrightarrow> name i = nm"
  by (simp add: is_intent_name_def)

lemma is_intent_name_other:
  "request_envelope hi = LaunchRequest \<Longrightarrow> \<not> is_intent_name nm hi"
  "request_envelope hi = SessionEndedRequest \<Longrightarrow> \<not> is_intent_name nm hi"
  "request_envelope hi = OtherRequest t \<Longrightarrow> \<not> is_intent_name nm hi"
  by (simp_all add: is_intent_name_def)

text \<open>
  C9. For every handler input, at most one of the four registered request handlers has a
  predicate that returns true.
\<close>

theorem predicates_mutually_exclusive:
  "length (filter (\<lambda>h. can_handle h hi = Inr True) (request_handlers sb)) \<le> 1"
proof (cases "request_envelope hi")
  case LaunchRequest
  then show ?thesis
    by (simp add: sb_request_handlers can_handle_simps is_intent_name_other)
next
  case (IntentRequest i)
  then show ?thesis
    by (auto simp: sb_request_handlers can_handle_simps is_intent_name_IntentRequest_env)
next
  case SessionEndedRequest
  then show ?thesis
    by (simp add: sb_request_handlers can_handle_simps is_intent_name_other)
next
  case (OtherRequest t)
  then show ?thesis
    by (simp add: sb_request_handlers can_handle_simps is_intent_name_other)
qed

subsection \<open>Cards\<close>

lemma registered_card:
  assumes "h \<in> set (request_handlers sb)"
  shows "\<exists>r t. fst (handle h hi) = Inr r \<and> output_speech r = Some t \<and>
               card r = Some \<lparr>title = ''Hola Mundo'', content = t\<rparr>"
  using registered_cases [OF assms]
  by (auto simp: handle_registered LaunchRequestHandler_handle_def
      HolaMundoIntentHandler_handle_def HelpIntentHandler_handle_def
      CancelAndStopIntentHandler_handle_def Let_def builder_defs)

lemma matched_card:
  assumes "h \<in> set (request_handlers sb)" and "can_handle h hi = Inr True"
  shows "\<exists>r t. fst (dispatch_request (request_handlers sb) hi) = Inr r \<and>
               output_speech r = Some t \<and>
               card r = Some \<lparr>title = ''Hola Mundo'', content = t\<rparr>"
proof -
  from registered_cases [OF assms(1)] assms(2)
  have "object_type (request_envelope hi) = ''LaunchRequest'' \<or>
      is_intent_name ''HolaMundoIntent'' hi \<or> is_intent_name ''AMAZON.HelpIntent'' hi \<or>
      is_intent_name ''AMAZON.CancelIntent'' hi \<or> is_intent_name ''AMAZON.StopIntent'' hi"
    by (auto simp: can_handle_simps)
  then show ?thesis
    by (auto simp: dispatch_request_sb LaunchRequestHandler_handle_def
        HolaMundoIntentHandler_handle_def HelpIntentHandler_handle_def
        CancelAndStopIntentHandler_handle_def Let_def builder_defs)
qed

text \<open>
  C10. The action of each of the four registered request handlers, on any handler input,
  returns a response with a card titled "Hola Mundo" whose body is the speech of that
  response; so the entry point, on every request that a registered predicate accepts,
  returns a response with such a card. The response of the exception handler, built on the
  fresh builder of an invocation, has no card.
\<close>

theorem cards_match_speech:
  "(h \<in> set (request_handlers sb) \<longrightarrow>
      (\<exists>r t. fst (handle h hi) = Inr r \<and> output_speech r = Some t \<and>
             card r = Some \<lparr>title = ''Hola Mundo'', content = t\<rparr>)) \<and>
   (h' \<in> set (request_handlers sb) \<and> can_handle h' (new_handler_input req) = Inr True \<longrightarrow>
      (\<exists>r t. handler req printed = (Inr r, printed) \<and> output_speech r = Some t \<and>
             card r = Some \<lparr>title = ''Hola Mundo'', content = t\<rparr>)) \<and>
   card (fst (fst (exc_handle AllExceptionHandler (new_handler_input req) e printed))) = None"
proof (intro conjI impI)
  assume "h \<in> set (request_handlers sb)"
  then show "\<exists>r t. fst (handle h hi) = Inr r \<and> output_speech r = Some t \<and>
      card r = Some \<lparr>title = ''Hola Mundo'', content = t\<rparr>"
    by (rule registered_card)
next
  assume "h' \<in> set (request_handlers sb) \<and> can_handle h' (new_handler_input req) = Inr True"
  then obtain r t
    where r: "fst (dispatch_request (request_handlers sb) (new_handler_input req)) = Inr r"
      and t: "output_speech r = Some t"
        "card r = Some \<lparr>title = ''Hola Mundo'', content = t\<rparr>"
    using matched_card by blast
  from r have "handler req printed = (Inr r, printed)"
    unfolding handler_eq by (rule dispatch_response)
  with t show "\<exists>r t. handler req printed = (Inr r, printed) \<and> output_speech r = Some t \<and>
      card r = Some \<lparr>title = ''Hola Mundo'', content = t\<rparr>"
    by blast
next
  show "card (fst (fst (exc_handle AllExceptionHandler (new_handler_input req) e printed))) =
      None"
    by (simp add: AllExceptionHandler_response new_handler_input_def empty_response_def)
qed

theorem cards_match_speech_witness:
  "HelpIntentHandler \<in> set (request_handlers sb) \<and>
   LaunchRequestHandler \<in> set (request_handlers sb) \<and>
   can_handle LaunchRequestHandler (new_handler_input LaunchRequest) = Inr True \<and>
   (\<exists>r t. fst (handle HelpIntentHandler (new_handler_input LaunchRequest)) = Inr r \<and>
          output_speech r = Some t \<and>
          card r = Some \<lparr>title = ''Hola Mundo'', content = t\<rparr>) \<and>
   (\<exists>r t. handler LaunchRequest [] = (Inr r, []) \<and> output_speech r = Some t \<and>
          card r = Some \<lparr>title = ''Hola Mundo'', content = t\<rparr>) \<and>
   card (fst (fst (exc_handle AllExceptionHandler (new_handler_input LaunchRequest)
                     (Exception ''boom'') []))) = None"
proof -
  have a: "HelpIntentHandler \<in> set (request_handlers sb)"
    by (simp add: sb_request_handlers)
  have b: "LaunchRequestHandler \<in> set (request_handlers sb)"
    by (simp add: sb_request_handlers)
  have c: "can_handle LaunchRequestHandler (new_handler_input LaunchRequest) = Inr True"
    by (simp add: can_handle_simps request_envelope_new)
  from cards_match_speech [of HelpIntentHandler "new_handler_input LaunchRequest"
      LaunchRequestHandler LaunchRequest "[]" "Exception ''boom''"] a b c
  show ?thesis
    by blast
qed

end
